theory Spec2Isabelle
  imports Main "HOL-Library.Sublist" "HOL-Library.Word"
begin

section \<open>JavaScript strings and objects, as far as the plugin uses them\<close>

text \<open>
  A JavaScript string is modelled as a \<^typ>\<open>string\<close>, one \<^typ>\<open>char\<close> per code unit.
  Header values are byte strings and the path name of a serialised URL is ASCII, so the
  two strings the loader inference inspects have code units below 256.
\<close>

text \<open>
  \<^verbatim>\<open>s.split(sep)\<close> for a separator of one character. The array it returns is never empty,
  so it is given as its first element and the list of the others.
\<close>

fun split :: "char \<Rightarrow> string \<Rightarrow> string \<times> string list" where
  "split sep [] = ([], [])"
| "split sep (c # cs) =
     (case split sep cs of
        (w, ws) \<Rightarrow> if c = sep then ([], w # ws) else (c # w, ws))"

text \<open>\<^verbatim>\<open>array.pop()\<close> on the array \<open>w # ws\<close>: its last element.\<close>

definition pop :: "string \<times> string list \<Rightarrow> string" where
  "pop a = (case a of (w, ws) \<Rightarrow> last (w # ws))"

text \<open>\<^verbatim>\<open>s.lastIndexOf(c)\<close>: the index of the last occurrence of \<open>c\<close>, or \<open>-1\<close>.\<close>

fun lastIndexOf :: "char \<Rightarrow> string \<Rightarrow> int" where
  "lastIndexOf c [] = -1"
| "lastIndexOf c (x # xs) =
     (let r = lastIndexOf c xs in
      if 0 \<le> r then r + 1 else if x = c then 0 else -1)"

text \<open>\<^verbatim>\<open>s.slice(i)\<close> for an index \<open>i \<ge> 0\<close>.\<close>

definition slice :: "int \<Rightarrow> string \<Rightarrow> string" where
  "slice i s = drop (nat i) s"

text \<open>
  \<^verbatim>\<open>s.toLowerCase()\<close> on code units below 256: the letters A to Z, and the Latin-1 capitals
  (192 to 222 without the multiplication sign 215), move up by 32.
\<close>

definition lower_char :: "char \<Rightarrow> char" where
  "lower_char c =
     (let n = (of_char c :: nat) in
      if (65 \<le> n \<and> n \<le> 90) \<or> (192 \<le> n \<and> n \<le> 222 \<and> n \<noteq> 215)
      then char_of (n + 32) else c)"

definition toLowerCase :: "string \<Rightarrow> string" where
  "toLowerCase s = map lower_char s"

text \<open>
  \<^verbatim>\<open>s.trim()\<close> removes white space and line terminators at both ends; below 256 these are
  tab, line feed, vertical tab, form feed, carriage return, space and no-break space.
\<close>

definition is_space :: "char \<Rightarrow> bool" where
  "is_space c = ((of_char c :: nat) \<in> {9, 10, 11, 12, 13, 32, 160})"

definition trim :: "string \<Rightarrow> string" where
  "trim s = rev (dropWhile is_space (rev (dropWhile is_space s)))"

text \<open>
  What a property read \<^verbatim>\<open>obj[key]\<close> on an object literal of strings can yield: one of the
  literal's own strings, or a member inherited from \<^verbatim>\<open>Object.prototype\<close> (a built-in
  function or object, named here by its key). \<open>None\<close> is \<^verbatim>\<open>undefined\<close>.
\<close>

datatype js_value = JString string | JBuiltin string

definition Object_prototype_keys :: "string list" where
  "Object_prototype_keys =
     [''constructor'', ''__defineGetter__'', ''__defineSetter__'', ''hasOwnProperty'',
      ''__lookupGetter__'', ''__lookupSetter__'', ''isPrototypeOf'',
      ''propertyIsEnumerable'', ''toString'', ''valueOf'', ''__proto__'',
      ''toLocaleString'']"

definition get_property :: "(string \<times> string) list \<Rightarrow> string \<Rightarrow> js_value option" where
  "get_property own key =
     (case map_of own key of
        Some v \<Rightarrow> Some (JString v)
      | None \<Rightarrow> if key \<in> set Object_prototype_keys then Some (JBuiltin key) else None)"

section \<open>Loader inference\<close>

text \<open>
  esbuild's \<^verbatim>\<open>Loader\<close> is a union of string literals; a loader is the string itself.
\<close>

type_synonym Loader = string

definition EXT_TO_LOADER :: "(string \<times> Loader) list" where
  "EXT_TO_LOADER =
     [(''js'', ''js''), (''mjs'', ''js''), (''cjs'', ''js''),
      (''ts'', ''ts''), (''mts'', ''ts''), (''cts'', ''ts''),
      (''jsx'', ''jsx''), (''tsx'', ''tsx''), (''json'', ''json''),
      (''css'', ''css''), (''txt'', ''text'')]"

definition loaderFromPathname :: "string \<Rightarrow> js_value option" where
  "loaderFromPathname pathname =
     (let last = pop (split CHR ''/'' pathname);
          dot = lastIndexOf CHR ''.'' last
      in if dot \<le> 0 then None
         else let ext = toLowerCase (slice (dot + 1) last)
              in get_property EXT_TO_LOADER ext)"

definition loaderFromContentType :: "string option \<Rightarrow> Loader option" where
  "loaderFromContentType contentType =
     (case contentType of
        None \<Rightarrow> None
      | Some ct \<Rightarrow>
          let t = toLowerCase (trim (fst (split CHR '';'' ct)))
          in if t = ''application/javascript'' \<or> t = ''text/javascript'' then Some ''js''
             else if t = ''application/typescript'' \<or> t = ''text/typescript'' then Some ''ts''
             else if t = ''application/json'' \<or> t = ''text/json'' then Some ''json''
             else if t = ''text/css'' then Some ''css''
             else if t = ''text/plain'' then Some ''text''
             else None)"

section \<open>The platform: errors, promises, responses, \<^verbatim>\<open>URL\<close> and \<^verbatim>\<open>fetch\<close>\<close>

datatype js_error = Error string | TypeError string | AbortError

text \<open>What awaiting a promise gives: its value, its rejection, or nothing, for ever.\<close>

datatype 'a outcome = Fulfils 'a | Rejects js_error | Never

type_synonym bytes = "8 word list"

text \<open>
  A \<^verbatim>\<open>Response\<close>: its status, its final URL (the empty string when the transport gives
  none), \<^verbatim>\<open>headers.get("content-type")\<close>, and what \<^verbatim>\<open>arrayBuffer()\<close> does.
\<close>

record response =
  status :: nat
  url :: string
  content_type :: "string option"
  arrayBuffer :: "bytes outcome"

definition ok :: "response \<Rightarrow> bool" where
  "ok res = (200 \<le> status res \<and> status res \<le> 299)"

text \<open>
  What the promise of \<^verbatim>\<open>fetch(path, {signal})\<close> does while the timer runs: it fulfils with a
  response, it rejects, or it is still pending when the timer runs out.
\<close>

datatype fetch_outcome = Responds response | Fails js_error | Stalls

record platform =
  URL_toString :: "string \<Rightarrow> string \<Rightarrow> js_error + string"
    \<comment> \<open>\<^verbatim>\<open>new URL(input, base).toString()\<close>\<close>
  URL_pathname :: "string \<Rightarrow> js_error + string"
    \<comment> \<open>\<^verbatim>\<open>new URL(input).pathname\<close>\<close>
  fetch :: "string \<Rightarrow> fetch_outcome"

text \<open>A number in a template literal: its decimal digits.\<close>

definition digit :: "nat \<Rightarrow> char" where
  "digit d = char_of (48 + d)"

function show_nat :: "nat \<Rightarrow> string" where
  "show_nat n = (if n < 10 then [digit n] else show_nat (n div 10) @ [digit (n mod 10)])"
  by pat_completeness auto
termination
  by (relation "measure (\<lambda>n. n)") auto

declare show_nat.simps [simp del]

section \<open>The plugin\<close>

text \<open>The pair \<^verbatim>\<open>{path, namespace}\<close>, and the arguments esbuild gives the two kinds of hook.\<close>

record module_id =
  path :: string
  namespace :: string

record OnResolveArgs = module_id +
  importer :: string

record OnLoadArgs = module_id +
  with_attributes :: "(string \<times> string) list"

type_synonym LoaderResolver = "OnLoadArgs \<Rightarrow> response \<Rightarrow> Loader option outcome"

text \<open>\<^verbatim>\<open>onLog\<close> returns, or throws the error given.\<close>

record HttpImportEsbuildPluginParams =
  param_namespace :: "string option"
  onLog :: "(string \<Rightarrow> js_error option) option"
  timeoutMs :: "int option"
  loaderResolver :: "LoaderResolver option"

record OnLoadResult =
  contents :: bytes
  loader :: js_value

text \<open>
  What a load does to the world, in the order it does it. \<open>Abort\<close> is the timer running out
  and calling \<^verbatim>\<open>abortController.abort()\<close>.
\<close>

datatype event =
    Log string
  | SetTimeout int
  | Fetch string
  | Abort
  | ClearTimeout
  | LedgerSet string string
  | ArrayBuffer

text \<open>
  The state of one plugin instance: the map \<^verbatim>\<open>pathToResolvedUrl\<close>, the number of timers set
  and neither run out nor cleared, and the events so far.
\<close>

record state =
  pathToResolvedUrl :: "string \<rightharpoonup> string"
  timers :: nat
  events :: "event list"

definition emit :: "event \<Rightarrow> state \<Rightarrow> state" where
  "emit e s = s\<lparr>events := events s @ [e]\<rparr>"

definition setTimeout :: "int \<Rightarrow> state \<Rightarrow> state" where
  "setTimeout ms s = emit (SetTimeout ms) (s\<lparr>timers := timers s + 1\<rparr>)"

definition timer_runs_out :: "state \<Rightarrow> state" where
  "timer_runs_out s = emit Abort (s\<lparr>timers := timers s - 1\<rparr>)"

text \<open>\<^verbatim>\<open>clearTimeout(timer)\<close>; it does nothing to a timer that has run out.\<close>

definition clearTimeout :: "bool \<Rightarrow> state \<Rightarrow> state" where
  "clearTimeout pending s =
     emit ClearTimeout (if pending then s\<lparr>timers := timers s - 1\<rparr> else s)"

definition ledger_set :: "string \<Rightarrow> string \<Rightarrow> state \<Rightarrow> state" where
  "ledger_set k v s =
     emit (LedgerSet k v) (s\<lparr>pathToResolvedUrl := (pathToResolvedUrl s)(k \<mapsto> v)\<rparr>)"

definition config_namespace :: "HttpImportEsbuildPluginParams option \<Rightarrow> string" where
  "config_namespace params =
     (case params of None \<Rightarrow> ''_http_url''
      | Some p \<Rightarrow> (case param_namespace p of None \<Rightarrow> ''_http_url'' | Some n \<Rightarrow> n))"

definition config_timeoutMs :: "HttpImportEsbuildPluginParams option \<Rightarrow> int" where
  "config_timeoutMs params =
     (case params of None \<Rightarrow> 30000
      | Some p \<Rightarrow> (case timeoutMs p of None \<Rightarrow> 30000 | Some t \<Rightarrow> t))"

definition config_loaderResolver ::
  "HttpImportEsbuildPluginParams option \<Rightarrow> LoaderResolver option" where
  "config_loaderResolver params =
     (case params of None \<Rightarrow> None | Some p \<Rightarrow> loaderResolver p)"

subsection \<open>The two resolve callbacks\<close>

type_synonym resolve_callback = "state \<Rightarrow> OnResolveArgs \<Rightarrow> js_error + module_id"

definition resolve_absolute :: "string \<Rightarrow> resolve_callback" where
  "resolve_absolute ns s args = Inr \<lparr>path = path args, namespace = ns\<rparr>"

definition resolve_in_namespace :: "platform \<Rightarrow> string \<Rightarrow> resolve_callback" where
  "resolve_in_namespace P ns s args =
     (let base = (case pathToResolvedUrl s (importer args) of
                    Some u \<Rightarrow> u
                  | None \<Rightarrow> importer args)
      in case URL_toString P (path args) base of
           Inl e \<Rightarrow> Inl e
         | Inr u \<Rightarrow> Inr \<lparr>path = u, namespace = ns\<rparr>)"

subsection \<open>The load callback\<close>

definition log_download ::
  "HttpImportEsbuildPluginParams option \<Rightarrow> string \<Rightarrow> state \<Rightarrow> js_error option \<times> state" where
  "log_download params p s =
     (case params of
        None \<Rightarrow> (None, s)
      | Some ps \<Rightarrow>
          (case onLog ps of
             None \<Rightarrow> (None, s)
           | Some f \<Rightarrow> (f (''Downloading: '' @ p), emit (Log (''Downloading: '' @ p)) s)))"

definition fetch_with_timeout ::
  "platform \<Rightarrow> int \<Rightarrow> string \<Rightarrow> state \<Rightarrow> (js_error + response) \<times> state" where
  "fetch_with_timeout P ms p s =
     (let s1 = setTimeout ms s;
          s2 = emit (Fetch p) s1
      in case fetch P p of
           Responds res \<Rightarrow> (Inr res, clearTimeout True s2)
         | Fails e \<Rightarrow> (Inl e, clearTimeout True s2)
         | Stalls \<Rightarrow> (Inl AbortError, clearTimeout False (timer_runs_out s2)))"

definition select_loader ::
  "platform \<Rightarrow> LoaderResolver option \<Rightarrow> OnLoadArgs \<Rightarrow> response \<Rightarrow> js_value outcome" where
  "select_loader P resolver args res =
     (case (case resolver of None \<Rightarrow> Fulfils None | Some f \<Rightarrow> f args res) of
        Rejects e \<Rightarrow> Rejects e
      | Never \<Rightarrow> Never
      | Fulfils (Some l) \<Rightarrow> Fulfils (JString l)
      | Fulfils None \<Rightarrow>
          (case URL_pathname P (path args) of
             Inl e \<Rightarrow> Rejects e
           | Inr pathname \<Rightarrow>
               (case loaderFromPathname pathname of
                  Some v \<Rightarrow> Fulfils v
                | None \<Rightarrow>
                    (case loaderFromContentType (content_type res) of
                       Some l \<Rightarrow> Fulfils (JString l)
                     | None \<Rightarrow> Fulfils (JString ''js'')))))"

definition onLoad ::
  "platform \<Rightarrow> HttpImportEsbuildPluginParams option \<Rightarrow> state \<Rightarrow> OnLoadArgs
     \<Rightarrow> OnLoadResult outcome \<times> state" where
  "onLoad P params s args =
     (case log_download params (path args) s of
        (Some e, s1) \<Rightarrow> (Rejects e, s1)
      | (None, s1) \<Rightarrow>
          (case fetch_with_timeout P (config_timeoutMs params) (path args) s1 of
             (Inl e, s2) \<Rightarrow> (Rejects e, s2)
           | (Inr res, s2) \<Rightarrow>
               (if \<not> ok res
                then (Rejects (Error (''GET '' @ path args @ '' failed: status ''
                                       @ show_nat (status res))), s2)
                else
                  (let resolvedUrl = (if url res = [] then path args else url res);
                       s3 = ledger_set (path args) resolvedUrl s2;
                       s4 = emit ArrayBuffer s3
                   in (case arrayBuffer res of
                         Rejects e \<Rightarrow> (Rejects e, s4)
                       | Never \<Rightarrow> (Never, s4)
                       | Fulfils bs \<Rightarrow>
                           (case select_loader P (config_loaderResolver params) args res of
                              Rejects e \<Rightarrow> (Rejects e, s4)
                            | Never \<Rightarrow> (Never, s4)
                            | Fulfils l \<Rightarrow>
                                (Fulfils \<lparr>contents = bs, loader = l\<rparr>, s4)))))))"

subsection \<open>The hooks that \<^verbatim>\<open>setup\<close> registers, and how esbuild runs them\<close>

text \<open>The two filters of the source: \<^verbatim>\<open>/^https?:\/\//\<close> and \<^verbatim>\<open>/.*/\<close>.\<close>

datatype regex = Re_http | Re_any

fun test :: "regex \<Rightarrow> string \<Rightarrow> bool" where
  "test Re_http s = (prefix ''http://'' s \<or> prefix ''https://'' s)"
| "test Re_any s = True"

record 'cb hook =
  filter_re :: regex
  hook_namespace :: "string option"
  callback :: 'cb

definition onResolve_hooks ::
  "platform \<Rightarrow> HttpImportEsbuildPluginParams option \<Rightarrow> resolve_callback hook list" where
  "onResolve_hooks P params =
     [\<lparr>filter_re = Re_http, hook_namespace = None,
       callback = resolve_absolute (config_namespace params)\<rparr>,
      \<lparr>filter_re = Re_any, hook_namespace = Some (config_namespace params),
       callback = resolve_in_namespace P (config_namespace params)\<rparr>]"

definition onLoad_hooks ::
  "platform \<Rightarrow> HttpImportEsbuildPluginParams option
     \<Rightarrow> (state \<Rightarrow> OnLoadArgs \<Rightarrow> OnLoadResult outcome \<times> state) hook list" where
  "onLoad_hooks P params =
     [\<lparr>filter_re = Re_any, hook_namespace = Some (config_namespace params),
       callback = onLoad P params\<rparr>]"

text \<open>
  esbuild runs the callbacks in the order of their registration. A callback runs when its
  filter matches the path and, if it names a namespace, that is the namespace of the
  arguments (of the importing module for a resolve, of the module for a load). The first
  result decides; with no callback the path is left to esbuild (\<open>None\<close>).
\<close>

definition applies :: "'cb hook \<Rightarrow> string \<Rightarrow> string \<Rightarrow> bool" where
  "applies h p ns =
     (test (filter_re h) p \<and> (case hook_namespace h of None \<Rightarrow> True | Some n \<Rightarrow> ns = n))"

fun run_onResolve ::
  "resolve_callback hook list \<Rightarrow> state \<Rightarrow> OnResolveArgs \<Rightarrow> js_error + module_id option" where
  "run_onResolve [] s args = Inr None"
| "run_onResolve (h # hs) s args =
     (if applies h (path args) (namespace args)
      then (case callback h s args of Inl e \<Rightarrow> Inl e | Inr r \<Rightarrow> Inr (Some r))
      else run_onResolve hs s args)"

fun run_onLoad ::
  "(state \<Rightarrow> OnLoadArgs \<Rightarrow> OnLoadResult outcome \<times> state) hook list \<Rightarrow> state \<Rightarrow> OnLoadArgs
     \<Rightarrow> (OnLoadResult outcome \<times> state) option" where
  "run_onLoad [] s args = None"
| "run_onLoad (h # hs) s args =
     (if applies h (path args) (namespace args)
      then Some (callback h s args)
      else run_onLoad hs s args)"

definition resolve ::
  "platform \<Rightarrow> HttpImportEsbuildPluginParams option \<Rightarrow> state \<Rightarrow> OnResolveArgs
     \<Rightarrow> js_error + module_id option" where
  "resolve P params = run_onResolve (onResolve_hooks P params)"

definition load ::
  "platform \<Rightarrow> HttpImportEsbuildPluginParams option \<Rightarrow> state \<Rightarrow> OnLoadArgs
     \<Rightarrow> (OnLoadResult outcome \<times> state) option" where
  "load P params = run_onLoad (onLoad_hooks P params)"

section \<open>The \<^verbatim>\<open>URL\<close> class on plain http and https addresses\<close>

text \<open>
  The theorems below hold for every \<^typ>\<open>platform\<close>. Their instances at concrete addresses
  use \<open>node\<close>, which follows the URL standard on the addresses met there: scheme
  \<^verbatim>\<open>http\<close> or \<^verbatim>\<open>https\<close>, a lower-case host without credentials or default port, and a
  reference made of \<^verbatim>\<open>/\<close>, \<^verbatim>\<open>.\<close>, \<^verbatim>\<open>..\<close>, \<^verbatim>\<open>?\<close>, \<^verbatim>\<open>#\<close> and characters the parser
  keeps as they are (no space, control character, backslash, percent sign or character
  beyond ASCII). Another scheme is answered with the parser's failure.
\<close>

datatype URL =
  URL (url_scheme: string) (url_host: string) (url_path: "string list")
      (url_query: "string option") (url_fragment: "string option")

definition is_alpha :: "char \<Rightarrow> bool" where
  "is_alpha c = (let n = (of_char c :: nat) in (65 \<le> n \<and> n \<le> 90) \<or> (97 \<le> n \<and> n \<le> 122))"

definition is_scheme_char :: "char \<Rightarrow> bool" where
  "is_scheme_char c =
     (let n = (of_char c :: nat) in
      is_alpha c \<or> (48 \<le> n \<and> n \<le> 57) \<or> c = CHR ''+'' \<or> c = CHR ''-'' \<or> c = CHR ''.'')"

definition has_scheme :: "string \<Rightarrow> bool" where
  "has_scheme s =
     (case s of
        [] \<Rightarrow> False
      | c # cs \<Rightarrow>
          is_alpha c \<and>
          (case dropWhile is_scheme_char cs of [] \<Rightarrow> False | d # _ \<Rightarrow> d = CHR '':''))"

text \<open>
  The path state of the parser: a segment \<^verbatim>\<open>..\<close> removes the last segment so far, a
  segment \<^verbatim>\<open>.\<close> adds nothing, and either of them leaves an empty segment when it is the
  last one.
\<close>

fun path_state :: "string list \<Rightarrow> string list \<Rightarrow> string list" where
  "path_state acc [] = acc"
| "path_state acc (seg # rest) =
     (if seg = ''..'' then path_state (butlast acc @ (if rest = [] then [[]] else [])) rest
      else if seg = ''.'' then path_state (acc @ (if rest = [] then [[]] else [])) rest
      else path_state (acc @ [seg]) rest)"

definition in_path :: "char \<Rightarrow> bool" where
  "in_path c = (c \<noteq> CHR ''?'' \<and> c \<noteq> CHR ''#'')"

definition in_host :: "char \<Rightarrow> bool" where
  "in_host c = (c \<noteq> CHR ''/'' \<and> c \<noteq> CHR ''?'' \<and> c \<noteq> CHR ''#'')"

definition segments_of :: "string \<Rightarrow> string list" where
  "segments_of p = (case split CHR ''/'' p of (w, ws) \<Rightarrow> w # ws)"

text \<open>What follows the path: \<^verbatim>\<open>?query\<close> and \<^verbatim>\<open>#fragment\<close>, each of them optional.\<close>

definition query_fragment :: "string \<Rightarrow> string option \<times> string option" where
  "query_fragment s =
     (case s of
        [] \<Rightarrow> (None, None)
      | c # cs \<Rightarrow>
          if c = CHR ''?''
          then (Some (takeWhile (\<lambda>x. x \<noteq> CHR ''#'') cs),
                case dropWhile (\<lambda>x. x \<noteq> CHR ''#'') cs of [] \<Rightarrow> None | _ # f \<Rightarrow> Some f)
          else (None, Some cs))"

definition parse_http :: "string \<Rightarrow> URL option" where
  "parse_http s =
     (case (if prefix ''http://'' s then Some (''http'', drop 7 s)
            else if prefix ''https://'' s then Some (''https'', drop 8 s)
            else None) of
        None \<Rightarrow> None
      | Some (sch, rest) \<Rightarrow>
          let host = takeWhile in_host rest;
              tail = dropWhile in_host rest;
              qf = query_fragment (dropWhile in_path tail)
          in if host = [] then None
             else Some (URL sch host (path_state [] (segments_of (drop 1 (takeWhile in_path tail))))
                          (fst qf) (snd qf)))"

definition parse_URL :: "string \<Rightarrow> string option \<Rightarrow> URL option" where
  "parse_URL input base =
     (if has_scheme input then parse_http input
      else
        (case base of
           None \<Rightarrow> None
         | Some b \<Rightarrow>
             (case parse_http b of
                None \<Rightarrow> None
              | Some B \<Rightarrow>
                  (let p = takeWhile in_path input;
                       qf = query_fragment (dropWhile in_path input)
                   in if prefix ''//'' input then parse_http (url_scheme B @ '':'' @ input)
                      else if prefix ''/'' input
                      then Some (URL (url_scheme B) (url_host B)
                                   (path_state [] (segments_of (drop 1 p))) (fst qf) (snd qf))
                      else if p \<noteq> []
                      then Some (URL (url_scheme B) (url_host B)
                                   (path_state (butlast (url_path B)) (segments_of p))
                                   (fst qf) (snd qf))
                      else if prefix ''?'' input
                      then Some (URL (url_scheme B) (url_host B) (url_path B) (fst qf) (snd qf))
                      else Some (URL (url_scheme B) (url_host B) (url_path B) (url_query B)
                                   (snd qf))))))"

definition pathname_of :: "URL \<Rightarrow> string" where
  "pathname_of u = concat (map (\<lambda>seg. CHR ''/'' # seg) (url_path u))"

definition href :: "URL \<Rightarrow> string" where
  "href u =
     url_scheme u @ ''://'' @ url_host u @ pathname_of u
       @ (case url_query u of None \<Rightarrow> [] | Some q \<Rightarrow> CHR ''?'' # q)
       @ (case url_fragment u of None \<Rightarrow> [] | Some f \<Rightarrow> CHR ''#'' # f)"

definition node :: "(string \<Rightarrow> fetch_outcome) \<Rightarrow> platform" where
  "node f =
     \<lparr>URL_toString = (\<lambda>input base.
         case parse_URL input (Some base) of
           None \<Rightarrow> Inl (TypeError ''Invalid URL'')
         | Some u \<Rightarrow> Inr (href u)),
      URL_pathname = (\<lambda>input.
         case parse_URL input None of
           None \<Rightarrow> Inl (TypeError ''Invalid URL'')
         | Some u \<Rightarrow> Inr (pathname_of u)),
      fetch = f\<rparr>"

section \<open>Loads and builds to reason about\<close>

text \<open>The events a load added to the state.\<close>

definition new_events :: "state \<Rightarrow> state \<Rightarrow> event list" where
  "new_events s s' = drop (length (events s)) (events s')"

text \<open>A new plugin instance: \<^verbatim>\<open>new Map()\<close>, no timer, nothing done yet.\<close>

definition init :: state where
  "init = \<lparr>pathToResolvedUrl = Map.empty, timers = 0, events = []\<rparr>"

text \<open>
  The helper of the repository's tests: a response built by hand has no final URL, and
  its body is there at once.
\<close>

definition makeResponse :: "bytes \<Rightarrow> nat \<Rightarrow> string \<Rightarrow> response" where
  "makeResponse body st contentType =
     \<lparr>status = st, url = [], content_type = Some contentType, arrayBuffer = Fulfils body\<rparr>"

definition default_params :: HttpImportEsbuildPluginParams where
  "default_params =
     \<lparr>param_namespace = None, onLog = None, timeoutMs = None, loaderResolver = None\<rparr>"

definition load_args :: "string \<Rightarrow> OnLoadArgs" where
  "load_args p = \<lparr>path = p, namespace = ''_http_url'', with_attributes = []\<rparr>"

text \<open>
  The transport of the test \<^verbatim>\<open>leaves bare imports inside http modules untouched\<close>: it
  serves \<^verbatim>\<open>https://example.com/a.js\<close> and rejects every other address.
\<close>

definition fetch_only_a_js :: "string \<Rightarrow> fetch_outcome" where
  "fetch_only_a_js u =
     (if u = ''https://example.com/a.js''
      then Responds (makeResponse [] 200 ''application/javascript'')
      else Fails (Error (''unexpected url '' @ u)))"

definition after_a_js :: state where
  "after_a_js = snd (onLoad (node fetch_only_a_js) None init (load_args ''https://example.com/a.js''))"

text \<open>
  The state of a plugin that has loaded \<^verbatim>\<open>https://cdn/pkg\<close> and was served it from
  \<^verbatim>\<open>https://cdn/pkg/index.js\<close>.
\<close>

definition redirected :: state where
  "redirected = init\<lparr>pathToResolvedUrl := [''https://cdn/pkg'' \<mapsto> ''https://cdn/pkg/index.js'']\<rparr>"

text \<open>
  Content-type inference in the words of the specification: the text before the first
  \<^verbatim>\<open>;\<close>, trimmed and in lower case, looked up in the table of media types.
\<close>

definition CONTENT_TYPE_TO_LOADER :: "(string \<times> Loader) list" where
  "CONTENT_TYPE_TO_LOADER =
     [(''application/javascript'', ''js''), (''text/javascript'', ''js''),
      (''application/typescript'', ''ts''), (''text/typescript'', ''ts''),
      (''application/json'', ''json''), (''text/json'', ''json''),
      (''text/css'', ''css''), (''text/plain'', ''text'')]"

definition media_type :: "string \<Rightarrow> string" where
  "media_type ct = toLowerCase (trim (takeWhile (\<lambda>c. c \<noteq> CHR '';'') ct))"

definition content_type_inference :: "string option \<Rightarrow> Loader option" where
  "content_type_inference header =
     (case header of None \<Rightarrow> None | Some ct \<Rightarrow> map_of CONTENT_TYPE_TO_LOADER (media_type ct))"

section \<open>Evaluating the definitions\<close>

lemmas load_defs =
  onLoad_def log_download_def fetch_with_timeout_def setTimeout_def timer_runs_out_def
  clearTimeout_def ledger_set_def emit_def new_events_def Let_def

lemmas load_splits =
  option.splits fetch_outcome.splits outcome.splits sum.splits prod.splits if_splits

lemmas loader_defs =
  select_loader_def config_loaderResolver_def loaderFromPathname_def loaderFromContentType_def
  pop_def slice_def toLowerCase_def lower_char_def trim_def is_space_def get_property_def
  EXT_TO_LOADER_def Object_prototype_keys_def

lemmas url_defs =
  node_def parse_URL_def parse_http_def has_scheme_def is_alpha_def is_scheme_char_def
  in_path_def in_host_def segments_of_def query_fragment_def href_def pathname_of_def

lemmas resolve_defs =
  resolve_def onResolve_hooks_def applies_def resolve_absolute_def resolve_in_namespace_def
  config_namespace_def

lemma node_fetch [simp]: "fetch (node f) = f"
  by (simp add: node_def)

lemma load_args_sel [simp]:
  "path (load_args p) = p" "namespace (load_args p) = ''_http_url''"
  by (simp_all add: load_args_def)

lemma fst_split: "fst (split c s) = takeWhile (\<lambda>x. x \<noteq> c) s"
  by (induction s) (auto split: prod.splits)

lemma sublist_after: "sublist xs (ps @ xs)"
  using sublist_appendI [of xs ps "[]"] by simp

lemma show_nat_404: "show_nat 404 = ''404''"
  by code_simp

subsection \<open>The \<^verbatim>\<open>URL\<close> class at the addresses used below\<close>

lemma URL_react:
  "URL_toString (node f) ''react'' ''https://example.com/a.js'' = Inr ''https://example.com/react''"
  by (simp add: url_defs)

lemma URL_util_redirected:
  "URL_toString (node f) ''./util.js'' ''https://cdn/pkg/index.js'' = Inr ''https://cdn/pkg/util.js''"
  by (simp add: url_defs)

lemma URL_util_requested:
  "URL_toString (node f) ''./util.js'' ''https://cdn/pkg'' = Inr ''https://cdn/util.js''"
  by (simp add: url_defs)

lemma URL_dot_segments:
  "URL_toString (node f) ''https://cdn/pkg/../util.js'' ''https://cdn/pkg''
     = Inr ''https://cdn/util.js''"
  by (simp add: url_defs)

lemma select_loader_js:
  "select_loader (node f) None (load_args ''https://example.com/a.js'') res
     = Fulfils (JString ''js'')"
  by (simp add: loader_defs url_defs load_args_def)

lemma select_loader_by_content_type:
  "select_loader (node f) None (load_args ''https://cdn/pkg'')
       (res\<lparr>content_type := Some ''application/javascript''\<rparr>)
     = Fulfils (JString ''js'')"
  by (simp add: loader_defs url_defs load_args_def)

lemma after_a_js_eq:
  "after_a_js =
     \<lparr>pathToResolvedUrl = [''https://example.com/a.js'' \<mapsto> ''https://example.com/a.js''],
      timers = 0,
      events = [SetTimeout 30000, Fetch ''https://example.com/a.js'', ClearTimeout,
                LedgerSet ''https://example.com/a.js'' ''https://example.com/a.js'',
                ArrayBuffer]\<rparr>"
  using select_loader_js [of fetch_only_a_js]
  by (simp add: after_a_js_def load_defs init_def fetch_only_a_js_def makeResponse_def ok_def
        config_timeoutMs_def config_loaderResolver_def)

section \<open>The load callback\<close>

text \<open>
  Claim C10. When an \<^verbatim>\<open>onLog\<close> hook is configured, a load calls it exactly once, with a
  message that contains the path, and the call is the first thing the load does: when the
  hook returns, the one request of the load comes after it, whatever becomes of the
  request (and when the hook throws, there is no request).
\<close>

theorem onLog_once_before_fetch:
  assumes "onLog ps = Some f"
    and "onLoad P (Some ps) s args = (r, s')"
  shows "\<exists>rest. new_events s s' = Log (''Downloading: '' @ path args) # rest
               \<and> [m. Log m \<leftarrow> rest] = []
               \<and> [p. Fetch p \<leftarrow> rest]
                   = (if f (''Downloading: '' @ path args) = None then [path args] else [])
               \<and> sublist (path args) (''Downloading: '' @ path args)"
proof -
  have "sublist (path args) (''Downloading: '' @ path args)"
    by (rule sublist_after)
  moreover have "\<exists>rest. new_events s s' = Log (''Downloading: '' @ path args) # rest
                       \<and> [m. Log m \<leftarrow> rest] = []
                       \<and> [p. Fetch p \<leftarrow> rest]
                           = (if f (''Downloading: '' @ path args) = None then [path args]
                              else [])"
    using assms by (auto simp: load_defs split: load_splits)
  ultimately show ?thesis by blast
qed

theorem onLog_once_before_fetch_witness:
  "onLog (default_params\<lparr>onLog := Some (\<lambda>m. None), timeoutMs := Some 10\<rparr>) = Some (\<lambda>m. None)
   \<and> onLoad (node (\<lambda>u. Stalls))
        (Some (default_params\<lparr>onLog := Some (\<lambda>m. None), timeoutMs := Some 10\<rparr>))
        init (load_args ''https://example.com/a.js'')
      = (Rejects AbortError,
         \<lparr>pathToResolvedUrl = Map.empty, timers = 0,
          events = [Log ''Downloading: https://example.com/a.js'', SetTimeout 10,
                    Fetch ''https://example.com/a.js'', Abort, ClearTimeout]\<rparr>)
   \<and> (\<exists>rest. new_events init
                \<lparr>pathToResolvedUrl = Map.empty, timers = 0,
                 events = [Log ''Downloading: https://example.com/a.js'', SetTimeout 10,
                           Fetch ''https://example.com/a.js'', Abort, ClearTimeout]\<rparr>
              = Log ''Downloading: https://example.com/a.js'' # rest
            \<and> [m. Log m \<leftarrow> rest] = []
            \<and> [p. Fetch p \<leftarrow> rest] = [''https://example.com/a.js'']
            \<and> sublist ''https://example.com/a.js'' ''Downloading: https://example.com/a.js'')"
proof -
  let ?ps = "default_params\<lparr>onLog := Some (\<lambda>m. None), timeoutMs := Some 10\<rparr>"
  have 1: "onLog ?ps = Some (\<lambda>m. None)"
    by (simp add: default_params_def)
  have 2: "onLoad (node (\<lambda>u. Stalls)) (Some ?ps) init (load_args ''https://example.com/a.js'')
      = (Rejects AbortError,
         \<lparr>pathToResolvedUrl = Map.empty, timers = 0,
          events = [Log ''Downloading: https://example.com/a.js'', SetTimeout 10,
                    Fetch ''https://example.com/a.js'', Abort, ClearTimeout]\<rparr>)"
    by (simp add: load_defs default_params_def init_def config_timeoutMs_def)
  from onLog_once_before_fetch [OF 1 2] 1 2 show ?thesis
    by simp
qed

text \<open>
  Claim C5. A load whose response has a status outside 200 to 299 rejects with an error
  whose message contains the path and the decimal status; the request was made once, so
  nothing was retried.
\<close>

theorem non_ok_status_rejects:
  assumes "onLoad P params s args = (r, s')"
    and "fst (log_download params (path args) s) = None"
    and "fetch P (path args) = Responds res"
    and "\<not> ok res"
  shows "r = Rejects (Error (''GET '' @ path args @ '' failed: status '' @ show_nat (status res)))
       \<and> sublist (path args) (''GET '' @ path args @ '' failed: status '' @ show_nat (status res))
       \<and> sublist (show_nat (status res))
            (''GET '' @ path args @ '' failed: status '' @ show_nat (status res))
       \<and> [p. Fetch p \<leftarrow> new_events s s'] = [path args]"
proof -
  let ?msg = "''GET '' @ path args @ '' failed: status '' @ show_nat (status res)"
  have 1: "r = Rejects (Error ?msg)"
    using assms by (auto simp: load_defs split: load_splits)
  have 2: "sublist (path args) ?msg"
    by (rule sublist_appendI)
  have 3: "sublist (show_nat (status res)) ?msg"
    using sublist_after [of "show_nat (status res)" "''GET '' @ path args @ '' failed: status ''"]
    by simp
  have 4: "[p. Fetch p \<leftarrow> new_events s s'] = [path args]"
    using assms by (auto simp: load_defs split: load_splits)
  from 1 2 3 4 show ?thesis by blast
qed

theorem non_ok_status_rejects_witness:
  "onLoad (node (\<lambda>u. Responds (makeResponse [] 404 ''application/javascript''))) None init
       (load_args ''https://example.com/a.js'')
     = (Rejects (Error ''GET https://example.com/a.js failed: status 404''),
        \<lparr>pathToResolvedUrl = Map.empty, timers = 0,
         events = [SetTimeout 30000, Fetch ''https://example.com/a.js'', ClearTimeout]\<rparr>)
   \<and> fst (log_download None ''https://example.com/a.js'' init) = None
   \<and> \<not> ok (makeResponse [] 404 ''application/javascript'')
   \<and> sublist ''https://example.com/a.js'' ''GET https://example.com/a.js failed: status 404''
   \<and> sublist ''404'' ''GET https://example.com/a.js failed: status 404''"
proof -
  let ?P = "node (\<lambda>u. Responds (makeResponse [] 404 ''application/javascript''))"
  let ?s' = "\<lparr>pathToResolvedUrl = Map.empty, timers = 0,
         events = [SetTimeout 30000, Fetch ''https://example.com/a.js'', ClearTimeout]\<rparr>"
  have 1: "onLoad ?P None init (load_args ''https://example.com/a.js'')
     = (Rejects (Error ''GET https://example.com/a.js failed: status 404''), ?s')"
    by (simp add: load_defs init_def config_timeoutMs_def makeResponse_def ok_def show_nat_404)
  have 2: "fst (log_download None (path (load_args ''https://example.com/a.js'')) init) = None"
    by (simp add: log_download_def)
  have 3: "fetch ?P (path (load_args ''https://example.com/a.js''))
             = Responds (makeResponse [] 404 ''application/javascript'')"
    by simp
  have 4: "\<not> ok (makeResponse [] 404 ''application/javascript'')"
    by (simp add: ok_def makeResponse_def)
  from non_ok_status_rejects [OF 1 2 3 4] 1 2 4 show ?thesis
    by (simp add: makeResponse_def show_nat_404)
qed

text \<open>
  Claim C4, as the code has it. The timer guards the promise of \<^verbatim>\<open>fetch\<close> only. When that
  promise is still pending as the timer runs out, the request is aborted and the load
  rejects with the abort error. On every path \<^verbatim>\<open>clearTimeout\<close> is the first thing done once
  the promise has settled: it comes straight after the request (after the abort, when
  the timer ran out), before the map is written and before the body is read, and nothing
  is aborted after it. So a response whose body never arrives leaves the load pending, and
  a load leaves as many timers pending as it found. When the log hook throws, no timer is
  set.
\<close>

theorem stalled_fetch_aborted_and_timer_cleared:
  assumes "onLoad P params s args = (r, s')"
  shows "(fst (log_download params (path args) s) = None
            \<longrightarrow> new_events s s'
                  = new_events s (snd (log_download params (path args) s))
                    @ [SetTimeout (config_timeoutMs params), Fetch (path args)]
                    @ (case fetch P (path args) of
                         Stalls \<Rightarrow> [Abort, ClearTimeout]
                       | Fails e \<Rightarrow> [ClearTimeout]
                       | Responds res \<Rightarrow>
                           ClearTimeout
                           # (if ok res
                              then [LedgerSet (path args)
                                      (if url res = [] then path args else url res),
                                    ArrayBuffer]
                              else []))
              \<and> [t. SetTimeout t \<leftarrow> new_events s (snd (log_download params (path args) s))] = []
              \<and> ClearTimeout \<notin> set (new_events s (snd (log_download params (path args) s)))
              \<and> Abort \<notin> set (new_events s (snd (log_download params (path args) s)))
              \<and> (fetch P (path args) = Stalls
                    \<longrightarrow> r = Rejects AbortError \<and> Abort \<in> set (new_events s s'))
              \<and> (\<forall>res. fetch P (path args) = Responds res \<and> ok res \<and> arrayBuffer res = Never
                    \<longrightarrow> r = Never \<and> Abort \<notin> set (new_events s s')))
       \<and> (fst (log_download params (path args) s) \<noteq> None
            \<longrightarrow> [t. SetTimeout t \<leftarrow> new_events s s'] = []
              \<and> ClearTimeout \<notin> set (new_events s s'))
       \<and> timers s' = timers s
       \<and> length [t. SetTimeout t \<leftarrow> new_events s s']
           = length (filter (\<lambda>e. e = ClearTimeout) (new_events s s'))"
proof (intro conjI impI allI)
  assume h: "fst (log_download params (path args) s) = None"
  from assms h show "new_events s s'
                  = new_events s (snd (log_download params (path args) s))
                    @ [SetTimeout (config_timeoutMs params), Fetch (path args)]
                    @ (case fetch P (path args) of
                         Stalls \<Rightarrow> [Abort, ClearTimeout]
                       | Fails e \<Rightarrow> [ClearTimeout]
                       | Responds res \<Rightarrow>
                           ClearTimeout
                           # (if ok res
                              then [LedgerSet (path args)
                                      (if url res = [] then path args else url res),
                                    ArrayBuffer]
                              else []))"
    by (auto simp: load_defs split: load_splits)
  show "[t. SetTimeout t \<leftarrow> new_events s (snd (log_download params (path args) s))] = []"
    by (auto simp: load_defs split: load_splits)
  show "ClearTimeout \<notin> set (new_events s (snd (log_download params (path args) s)))"
    by (auto simp: load_defs split: load_splits)
  show "Abort \<notin> set (new_events s (snd (log_download params (path args) s)))"
    by (auto simp: load_defs split: load_splits)
  {
    assume "fetch P (path args) = Stalls"
    with assms h show "r = Rejects AbortError" and "Abort \<in> set (new_events s s')"
      by (auto simp: load_defs split: load_splits)
  }
  {
    fix res
    assume "fetch P (path args) = Responds res \<and> ok res \<and> arrayBuffer res = Never"
    with assms h show "r = Never" and "Abort \<notin> set (new_events s s')"
      by (auto simp: load_defs split: load_splits)
  }
next
  assume h: "fst (log_download params (path args) s) \<noteq> None"
  from assms h show "[t. SetTimeout t \<leftarrow> new_events s s'] = []"
    by (auto simp: load_defs split: load_splits)
  from assms h show "ClearTimeout \<notin> set (new_events s s')"
    by (auto simp: load_defs split: load_splits)
next
  from assms show "timers s' = timers s"
    by (auto simp: load_defs split: load_splits)
next
  from assms show "length [t. SetTimeout t \<leftarrow> new_events s s']
                     = length (filter (\<lambda>e. e = ClearTimeout) (new_events s s'))"
    by (auto simp: load_defs split: load_splits)
qed

theorem stalled_fetch_aborted_and_timer_cleared_witness:
  "onLoad (node (\<lambda>u. Stalls)) (Some (default_params\<lparr>timeoutMs := Some 10\<rparr>)) init
       (load_args ''https://example.com/a.js'')
     = (Rejects AbortError,
        \<lparr>pathToResolvedUrl = Map.empty, timers = 0,
         events = [SetTimeout 10, Fetch ''https://example.com/a.js'', Abort, ClearTimeout]\<rparr>)
   \<and> fst (log_download (Some (default_params\<lparr>timeoutMs := Some 10\<rparr>))
            ''https://example.com/a.js'' init) = None
   \<and> fetch (node (\<lambda>u. Stalls)) ''https://example.com/a.js'' = Stalls
   \<and> onLoad (node (\<lambda>u. Responds \<lparr>status = 200, url = [],
                                   content_type = Some ''text/css'', arrayBuffer = Never\<rparr>))
         (Some (default_params\<lparr>timeoutMs := Some 10\<rparr>)) init
         (load_args ''https://example.com/slow.css'')
       = (Never,
          \<lparr>pathToResolvedUrl
             = [''https://example.com/slow.css'' \<mapsto> ''https://example.com/slow.css''],
           timers = 0,
           events = [SetTimeout 10, Fetch ''https://example.com/slow.css'', ClearTimeout,
                     LedgerSet ''https://example.com/slow.css'' ''https://example.com/slow.css'',
                     ArrayBuffer]\<rparr>)
   \<and> ok \<lparr>status = 200, url = [], content_type = Some ''text/css'', arrayBuffer = Never\<rparr>
   \<and> onLoad (node (\<lambda>u. Stalls))
         (Some (default_params\<lparr>onLog := Some (\<lambda>m. Some (Error ''no sink''))\<rparr>)) init
         (load_args ''https://example.com/a.js'')
       = (Rejects (Error ''no sink''),
          \<lparr>pathToResolvedUrl = Map.empty, timers = 0,
           events = [Log ''Downloading: https://example.com/a.js'']\<rparr>)
   \<and> fst (log_download (Some (default_params\<lparr>onLog := Some (\<lambda>m. Some (Error ''no sink''))\<rparr>))
            ''https://example.com/a.js'' init) \<noteq> None"
proof -
  let ?ps = "Some (default_params\<lparr>timeoutMs := Some 10\<rparr>)"
  let ?s1 = "\<lparr>pathToResolvedUrl = Map.empty, timers = 0,
         events = [SetTimeout 10, Fetch ''https://example.com/a.js'', Abort, ClearTimeout]\<rparr>"
  let ?slow = "\<lparr>status = 200, url = [], content_type = Some ''text/css'', arrayBuffer = Never\<rparr>"
  let ?s2 = "\<lparr>pathToResolvedUrl
             = [''https://example.com/slow.css'' \<mapsto> ''https://example.com/slow.css''],
           timers = 0,
           events = [SetTimeout 10, Fetch ''https://example.com/slow.css'', ClearTimeout,
                     LedgerSet ''https://example.com/slow.css'' ''https://example.com/slow.css'',
                     ArrayBuffer]\<rparr>"
  let ?pt = "Some (default_params\<lparr>onLog := Some (\<lambda>m. Some (Error ''no sink''))\<rparr>)"
  let ?s3 = "\<lparr>pathToResolvedUrl = Map.empty, timers = 0,
           events = [Log ''Downloading: https://example.com/a.js'']\<rparr>"
  have 1: "onLoad (node (\<lambda>u. Stalls)) ?ps init (load_args ''https://example.com/a.js'')
             = (Rejects AbortError, ?s1)"
    by (simp add: load_defs default_params_def init_def config_timeoutMs_def)
  have 2: "fst (log_download ?ps (path (load_args ''https://example.com/a.js'')) init) = None"
    by (simp add: log_download_def default_params_def)
  have 3: "fetch (node (\<lambda>u. Stalls)) (path (load_args ''https://example.com/a.js'')) = Stalls"
    by simp
  have 4: "onLoad (node (\<lambda>u. Responds ?slow)) ?ps init (load_args ''https://example.com/slow.css'')
             = (Never, ?s2)"
    by (simp add: load_defs default_params_def init_def config_timeoutMs_def ok_def)
  have 5: "fst (log_download ?ps (path (load_args ''https://example.com/slow.css'')) init) = None"
    by (simp add: log_download_def default_params_def)
  have 6: "fetch (node (\<lambda>u. Responds ?slow)) (path (load_args ''https://example.com/slow.css''))
             = Responds ?slow \<and> ok ?slow \<and> arrayBuffer ?slow = Never"
    by (simp add: ok_def)
  have 7: "onLoad (node (\<lambda>u. Stalls)) ?pt init (load_args ''https://example.com/a.js'')
             = (Rejects (Error ''no sink''), ?s3)"
    by (simp add: load_defs default_params_def init_def)
  have 8: "fst (log_download ?pt (path (load_args ''https://example.com/a.js'')) init) \<noteq> None"
    by (simp add: log_download_def default_params_def)
  from stalled_fetch_aborted_and_timer_cleared [OF 1] 2 3
  have a: "Abort \<in> set (new_events init ?s1)"
    by blast
  from stalled_fetch_aborted_and_timer_cleared [OF 4] 5 6
  have b: "Abort \<notin> set (new_events init ?s2)"
    by blast
  from stalled_fetch_aborted_and_timer_cleared [OF 7] 8
  have c: "ClearTimeout \<notin> set (new_events init ?s3)"
    by blast
  from a b c 1 2 3 4 6 7 8 show ?thesis
    by simp
qed

text \<open>
  The claim as it is written fails for a response whose head arrives in time and whose
  body never does: the timer is cleared before the body is read, nothing is aborted and
  the load does not fail.
\<close>

theorem slow_body_not_timed_out:
  "fst (onLoad (node (\<lambda>u. Responds \<lparr>status = 200, url = [],
                                    content_type = Some ''application/javascript'',
                                    arrayBuffer = Never\<rparr>))
          (Some (default_params\<lparr>timeoutMs := Some 10\<rparr>)) init
          (load_args ''https://example.com/a.js'')) = Never
   \<and> events (snd (onLoad (node (\<lambda>u. Responds \<lparr>status = 200, url = [],
                                    content_type = Some ''application/javascript'',
                                    arrayBuffer = Never\<rparr>))
          (Some (default_params\<lparr>timeoutMs := Some 10\<rparr>)) init
          (load_args ''https://example.com/a.js'')))
       = [SetTimeout 10, Fetch ''https://example.com/a.js'', ClearTimeout,
          LedgerSet ''https://example.com/a.js'' ''https://example.com/a.js'', ArrayBuffer]
   \<and> Abort \<notin> set (events (snd (onLoad (node (\<lambda>u. Responds \<lparr>status = 200, url = [],
                                    content_type = Some ''application/javascript'',
                                    arrayBuffer = Never\<rparr>))
          (Some (default_params\<lparr>timeoutMs := Some 10\<rparr>)) init
          (load_args ''https://example.com/a.js''))))"
  by (simp add: load_defs default_params_def init_def config_timeoutMs_def ok_def)

text \<open>
  Claim C6, as the code has it. A load writes the entry of its path exactly once when the
  promise of \<^verbatim>\<open>fetch\<close> fulfils with a status from 200 to 299: the value is the final URL of
  the response, or the path itself when that URL is empty, and the write comes straight
  after the status check, before the body is read. A load writes nothing when the log
  hook throws, when the request fails or is aborted, or when the status is another one.
\<close>

theorem ledger_written_once_after_status_check:
  assumes "onLoad P params s args = (r, s')"
  shows "(fst (log_download params (path args) s) = None
            \<and> fetch P (path args) = Responds res \<and> ok res
          \<longrightarrow> pathToResolvedUrl s'
                = (pathToResolvedUrl s)
                    (path args \<mapsto> (if url res = [] then path args else url res))
            \<and> (\<exists>pre post.
                  new_events s s'
                    = pre @ LedgerSet (path args) (if url res = [] then path args else url res)
                        # ArrayBuffer # post
                  \<and> [(k, v). LedgerSet k v \<leftarrow> pre @ post] = []
                  \<and> ArrayBuffer \<notin> set (pre @ post)))
       \<and> (\<not> (fst (log_download params (path args) s) = None
               \<and> (\<exists>res. fetch P (path args) = Responds res \<and> ok res))
          \<longrightarrow> pathToResolvedUrl s' = pathToResolvedUrl s
            \<and> [(k, v). LedgerSet k v \<leftarrow> new_events s s'] = [])"
proof (intro conjI impI)
  assume h: "fst (log_download params (path args) s) = None
               \<and> fetch P (path args) = Responds res \<and> ok res"
  let ?u = "if url res = [] then path args else url res"
  let ?pre = "new_events s (snd (log_download params (path args) s))
                @ [SetTimeout (config_timeoutMs params), Fetch (path args), ClearTimeout]"
  show "pathToResolvedUrl s' = (pathToResolvedUrl s)(path args \<mapsto> ?u)"
    using assms h by (auto simp: load_defs split: load_splits)
  have "new_events s s' = ?pre @ LedgerSet (path args) ?u # ArrayBuffer # []"
    using assms h by (auto simp: load_defs split: load_splits)
  moreover have "[(k, v). LedgerSet k v \<leftarrow> ?pre @ []] = []"
    by (auto simp: load_defs split: load_splits)
  moreover have "ArrayBuffer \<notin> set (?pre @ [])"
    by (auto simp: load_defs split: load_splits)
  ultimately show "\<exists>pre post.
      new_events s s' = pre @ LedgerSet (path args) ?u # ArrayBuffer # post
      \<and> [(k, v). LedgerSet k v \<leftarrow> pre @ post] = [] \<and> ArrayBuffer \<notin> set (pre @ post)"
    by blast
next
  assume h: "\<not> (fst (log_download params (path args) s) = None
                 \<and> (\<exists>res. fetch P (path args) = Responds res \<and> ok res))"
  show "pathToResolvedUrl s' = pathToResolvedUrl s"
    using assms h by (auto simp: load_defs split: load_splits)
  show "[(k, v). LedgerSet k v \<leftarrow> new_events s s'] = []"
    using assms h by (auto simp: load_defs split: load_splits)
qed

theorem ledger_written_once_after_status_check_witness:
  "onLoad (node (\<lambda>u. Responds ((makeResponse [] 200 ''application/javascript'')
                                 \<lparr>url := ''https://cdn/pkg/index.js''\<rparr>)))
       None init (load_args ''https://cdn/pkg'')
     = (Fulfils \<lparr>contents = [], loader = JString ''js''\<rparr>,
        \<lparr>pathToResolvedUrl = [''https://cdn/pkg'' \<mapsto> ''https://cdn/pkg/index.js''],
         timers = 0,
         events = [SetTimeout 30000, Fetch ''https://cdn/pkg'', ClearTimeout,
                   LedgerSet ''https://cdn/pkg'' ''https://cdn/pkg/index.js'', ArrayBuffer]\<rparr>)
   \<and> fst (log_download None ''https://cdn/pkg'' init) = None
   \<and> ok ((makeResponse [] 200 ''application/javascript'')\<lparr>url := ''https://cdn/pkg/index.js''\<rparr>)
   \<and> onLoad (node (\<lambda>u. Responds (makeResponse [] 404 ''text/plain''))) None init
         (load_args ''https://cdn/pkg'')
       = (Rejects (Error ''GET https://cdn/pkg failed: status 404''),
          \<lparr>pathToResolvedUrl = Map.empty, timers = 0,
           events = [SetTimeout 30000, Fetch ''https://cdn/pkg'', ClearTimeout]\<rparr>)
   \<and> \<not> ok (makeResponse [] 404 ''text/plain'')"
proof -
  let ?res = "(makeResponse [] 200 ''application/javascript'')\<lparr>url := ''https://cdn/pkg/index.js''\<rparr>"
  let ?s1 = "\<lparr>pathToResolvedUrl = [''https://cdn/pkg'' \<mapsto> ''https://cdn/pkg/index.js''],
         timers = 0,
         events = [SetTimeout 30000, Fetch ''https://cdn/pkg'', ClearTimeout,
                   LedgerSet ''https://cdn/pkg'' ''https://cdn/pkg/index.js'', ArrayBuffer]\<rparr>"
  let ?s2 = "\<lparr>pathToResolvedUrl = Map.empty, timers = 0,
           events = [SetTimeout 30000, Fetch ''https://cdn/pkg'', ClearTimeout]\<rparr>"
  have sel: "select_loader (node (\<lambda>u. Responds ?res)) None (load_args ''https://cdn/pkg'') ?res
               = Fulfils (JString ''js'')"
    using select_loader_by_content_type [of "\<lambda>u. Responds ?res" ?res]
    by (simp add: makeResponse_def)
  have 1: "onLoad (node (\<lambda>u. Responds ?res)) None init (load_args ''https://cdn/pkg'')
             = (Fulfils \<lparr>contents = [], loader = JString ''js''\<rparr>, ?s1)"
    using sel
    by (simp add: load_defs init_def makeResponse_def ok_def config_timeoutMs_def
          config_loaderResolver_def)
  have 2: "fst (log_download None (path (load_args ''https://cdn/pkg'')) init) = None"
    by (simp add: log_download_def)
  have 3: "fetch (node (\<lambda>u. Responds ?res)) (path (load_args ''https://cdn/pkg'')) = Responds ?res"
    by simp
  have 4: "ok ?res"
    by (simp add: ok_def makeResponse_def)
  have 5: "onLoad (node (\<lambda>u. Responds (makeResponse [] 404 ''text/plain''))) None init
             (load_args ''https://cdn/pkg'')
           = (Rejects (Error ''GET https://cdn/pkg failed: status 404''), ?s2)"
    by (simp add: load_defs init_def makeResponse_def ok_def config_timeoutMs_def show_nat_404)
  have 6: "\<not> ok (makeResponse [] 404 ''text/plain'')"
    by (simp add: ok_def makeResponse_def)
  have 7: "\<not> (fst (log_download None (path (load_args ''https://cdn/pkg'')) init) = None
             \<and> (\<exists>res. fetch (node (\<lambda>u. Responds (makeResponse [] 404 ''text/plain'')))
                         (path (load_args ''https://cdn/pkg'')) = Responds res \<and> ok res))"
    using 6 by simp
  from ledger_written_once_after_status_check [OF 1, of ?res] 2 3 4
  have "pathToResolvedUrl ?s1
          = (pathToResolvedUrl init)(''https://cdn/pkg'' \<mapsto> ''https://cdn/pkg/index.js'')"
    by (simp add: makeResponse_def)
  moreover from ledger_written_once_after_status_check [OF 5] 7
  have "pathToResolvedUrl ?s2 = pathToResolvedUrl init"
    by blast
  ultimately show ?thesis
    using 1 2 4 5 6 by simp
qed

text \<open>
  The claim as it is written fails for a response with status 200 whose body cannot be
  read: the load fails, and the entry has been written all the same, before the body was
  read.
\<close>

theorem ledger_written_on_failed_load:
  "fst (onLoad (node (\<lambda>u. Responds \<lparr>status = 200, url = [],
                                    content_type = Some ''application/javascript'',
                                    arrayBuffer = Rejects (TypeError ''terminated'')\<rparr>))
          None init (load_args ''https://example.com/a.js''))
     = Rejects (TypeError ''terminated'')
   \<and> pathToResolvedUrl
        (snd (onLoad (node (\<lambda>u. Responds \<lparr>status = 200, url = [],
                                    content_type = Some ''application/javascript'',
                                    arrayBuffer = Rejects (TypeError ''terminated'')\<rparr>))
          None init (load_args ''https://example.com/a.js'')))
        ''https://example.com/a.js''
     = Some ''https://example.com/a.js''
   \<and> pathToResolvedUrl init ''https://example.com/a.js'' = None"
  by (simp add: load_defs init_def config_timeoutMs_def ok_def)

section \<open>The resolve callbacks\<close>

text \<open>
  Claim C9. An import path that starts with \<^verbatim>\<open>http://\<close> or \<^verbatim>\<open>https://\<close> resolves to itself,
  in the plugin's namespace, whatever the importing module and its namespace are.
\<close>

theorem absolute_url_resolves_to_itself:
  assumes "prefix ''http://'' (path args) \<or> prefix ''https://'' (path args)"
  shows "resolve P params s args
           = Inr (Some \<lparr>path = path args, namespace = config_namespace params\<rparr>)"
  using assms
  by (simp add: resolve_def onResolve_hooks_def applies_def resolve_absolute_def)

theorem absolute_url_resolves_to_itself_witness:
  "(prefix ''http://'' ''https://example.com/a.js'' \<or> prefix ''https://'' ''https://example.com/a.js'')
   \<and> resolve (node (\<lambda>u. Stalls)) None init
         \<lparr>path = ''https://example.com/a.js'', namespace = ''file'', importer = ''/src/main.js''\<rparr>
       = Inr (Some \<lparr>path = ''https://example.com/a.js'', namespace = ''_http_url''\<rparr>)"
proof -
  have 1: "prefix ''http://''
             (path \<lparr>path = ''https://example.com/a.js'', namespace = ''file'',
                    importer = ''/src/main.js''\<rparr>)
           \<or> prefix ''https://''
             (path \<lparr>path = ''https://example.com/a.js'', namespace = ''file'',
                    importer = ''/src/main.js''\<rparr>)"
    by simp
  from absolute_url_resolves_to_itself [OF 1, of "node (\<lambda>u. Stalls)" None init] 1
  show ?thesis
    by (simp add: config_namespace_def)
qed

text \<open>
  Claim C2, as the code has it. A relative import path, one that starts with \<^verbatim>\<open>./\<close>,
  \<^verbatim>\<open>../\<close> or \<^verbatim>\<open>/\<close>, met in a module of the plugin's namespace with path \<open>A\<close>, resolves to
  what \<^verbatim>\<open>new URL\<close> makes of it against \<open>A\<close> when the map has no entry for \<open>A\<close>, and against
  the entry when it has one; a failure of \<^verbatim>\<open>new URL\<close> is the failure of the resolution.
\<close>

theorem relative_import_resolves_against_served_url:
  assumes "namespace args = config_namespace params"
    and "prefix ''./'' (path args) \<or> prefix ''../'' (path args) \<or> prefix ''/'' (path args)"
  shows "(pathToResolvedUrl s (importer args) = None
            \<longrightarrow> resolve P params s args
                = (case URL_toString P (path args) (importer args) of
                     Inl e \<Rightarrow> Inl e
                   | Inr u \<Rightarrow> Inr (Some \<lparr>path = u, namespace = config_namespace params\<rparr>)))
       \<and> (\<forall>A'. pathToResolvedUrl s (importer args) = Some A'
            \<longrightarrow> resolve P params s args
                = (case URL_toString P (path args) A' of
                     Inl e \<Rightarrow> Inl e
                   | Inr u \<Rightarrow> Inr (Some \<lparr>path = u, namespace = config_namespace params\<rparr>)))"
proof -
  from assms(2) have "\<not> (prefix ''http://'' (path args) \<or> prefix ''https://'' (path args))"
    by (auto simp: prefix_def)
  with assms(1) show ?thesis
    by (simp add: resolve_def onResolve_hooks_def applies_def resolve_in_namespace_def
          split: option.splits sum.splits)
qed

text \<open>
  The module \<^verbatim>\<open>https://cdn/pkg\<close> was served from \<^verbatim>\<open>https://cdn/pkg/index.js\<close>: its import
  \<^verbatim>\<open>./util.js\<close> resolves to \<^verbatim>\<open>https://cdn/pkg/util.js\<close>. Without the entry it resolves to
  \<^verbatim>\<open>https://cdn/util.js\<close>.
\<close>

theorem relative_import_resolves_against_served_url_witness:
  "namespace \<lparr>path = ''./util.js'', namespace = ''_http_url'', importer = ''https://cdn/pkg''\<rparr>
     = config_namespace None
   \<and> (prefix ''./'' ''./util.js'' \<or> prefix ''../'' ''./util.js'' \<or> prefix ''/'' ''./util.js'')
   \<and> pathToResolvedUrl redirected ''https://cdn/pkg'' = Some ''https://cdn/pkg/index.js''
   \<and> resolve (node (\<lambda>u. Stalls)) None redirected
         \<lparr>path = ''./util.js'', namespace = ''_http_url'', importer = ''https://cdn/pkg''\<rparr>
       = Inr (Some \<lparr>path = ''https://cdn/pkg/util.js'', namespace = ''_http_url''\<rparr>)
   \<and> pathToResolvedUrl init ''https://cdn/pkg'' = None
   \<and> resolve (node (\<lambda>u. Stalls)) None init
         \<lparr>path = ''./util.js'', namespace = ''_http_url'', importer = ''https://cdn/pkg''\<rparr>
       = Inr (Some \<lparr>path = ''https://cdn/util.js'', namespace = ''_http_url''\<rparr>)"
proof -
  let ?args = "\<lparr>path = ''./util.js'', namespace = ''_http_url'', importer = ''https://cdn/pkg''\<rparr>"
  have 1: "namespace ?args = config_namespace None"
    by (simp add: config_namespace_def)
  have 2: "prefix ''./'' (path ?args) \<or> prefix ''../'' (path ?args) \<or> prefix ''/'' (path ?args)"
    by simp
  have 3: "pathToResolvedUrl redirected (importer ?args) = Some ''https://cdn/pkg/index.js''"
    by (simp add: redirected_def init_def)
  have 4: "pathToResolvedUrl init (importer ?args) = None"
    by (simp add: init_def)
  from relative_import_resolves_against_served_url [OF 1 2, of redirected "node (\<lambda>u. Stalls)"] 3
  have 5: "resolve (node (\<lambda>u. Stalls)) None redirected ?args
             = Inr (Some \<lparr>path = ''https://cdn/pkg/util.js'', namespace = ''_http_url''\<rparr>)"
    by (simp add: URL_util_redirected config_namespace_def)
  from relative_import_resolves_against_served_url [OF 1 2, of init "node (\<lambda>u. Stalls)"] 4
  have 6: "resolve (node (\<lambda>u. Stalls)) None init ?args
             = Inr (Some \<lparr>path = ''https://cdn/util.js'', namespace = ''_http_url''\<rparr>)"
    by (simp add: URL_util_requested config_namespace_def)
  from 1 2 3 4 5 6 show ?thesis
    by simp
qed

text \<open>
  The claim as it is written, for every import path, fails for an absolute one: inside
  the module \<^verbatim>\<open>https://cdn/pkg\<close> the import \<^verbatim>\<open>https://cdn/pkg/../util.js\<close> resolves to itself,
  while \<^verbatim>\<open>new URL\<close> removes the dot segments.
\<close>

theorem absolute_import_in_namespace_kept_verbatim:
  "resolve (node (\<lambda>u. Stalls)) None init
       \<lparr>path = ''https://cdn/pkg/../util.js'', namespace = ''_http_url'',
        importer = ''https://cdn/pkg''\<rparr>
     = Inr (Some \<lparr>path = ''https://cdn/pkg/../util.js'', namespace = ''_http_url''\<rparr>)
   \<and> pathToResolvedUrl init ''https://cdn/pkg'' = None
   \<and> URL_toString (node (\<lambda>u. Stalls)) ''https://cdn/pkg/../util.js'' ''https://cdn/pkg''
       = Inr ''https://cdn/util.js''"
  by (simp add: resolve_defs init_def URL_dot_segments)

text \<open>
  Claim C1 fails on the code. The second resolve callback is registered with the filter
  \<^verbatim>\<open>/.*/\<close>, so it takes the bare specifier \<^verbatim>\<open>react\<close> met in \<^verbatim>\<open>https://example.com/a.js\<close> and
  makes it \<^verbatim>\<open>https://example.com/react\<close> in the plugin's namespace; the load callback then
  requests that address. The transport has seen two addresses, where the test of the
  repository expects the first alone.
\<close>

theorem bare_import_in_namespace_rewritten_and_fetched:
  "resolve (node fetch_only_a_js) None after_a_js
       \<lparr>path = ''react'', namespace = ''_http_url'', importer = ''https://example.com/a.js''\<rparr>
     = Inr (Some \<lparr>path = ''https://example.com/react'', namespace = ''_http_url''\<rparr>)
   \<and> map_option (\<lambda>(r, s'). (r, [p. Fetch p \<leftarrow> events s']))
        (load (node fetch_only_a_js) None after_a_js (load_args ''https://example.com/react''))
     = Some (Rejects (Error ''unexpected url https://example.com/react''),
             [''https://example.com/a.js'', ''https://example.com/react''])"
proof -
  have "resolve (node fetch_only_a_js) None after_a_js
          \<lparr>path = ''react'', namespace = ''_http_url'', importer = ''https://example.com/a.js''\<rparr>
        = Inr (Some \<lparr>path = ''https://example.com/react'', namespace = ''_http_url''\<rparr>)"
    using URL_react [of fetch_only_a_js] by (simp add: resolve_defs after_a_js_eq)
  moreover have "map_option (\<lambda>(r, s'). (r, [p. Fetch p \<leftarrow> events s']))
        (load (node fetch_only_a_js) None after_a_js (load_args ''https://example.com/react''))
     = Some (Rejects (Error ''unexpected url https://example.com/react''),
             [''https://example.com/a.js'', ''https://example.com/react''])"
    by (simp add: load_def onLoad_hooks_def applies_def config_namespace_def after_a_js_eq
          load_defs fetch_only_a_js_def config_timeoutMs_def)
  ultimately show ?thesis by blast
qed

section \<open>Loader inference\<close>

subsection \<open>What the extension table yields\<close>

lemma lower_char_not_capital:
  "\<not> (65 \<le> (of_char (lower_char c) :: nat) \<and> (of_char (lower_char c) :: nat) \<le> 90)"
  by (auto simp: lower_char_def Let_def)

lemma toLowerCase_not_capital:
  assumes "c \<in> set (toLowerCase x)"
  shows "\<not> (65 \<le> (of_char c :: nat) \<and> (of_char c :: nat) \<le> 90)"
proof -
  from assms obtain d where "c = lower_char d"
    by (auto simp: toLowerCase_def)
  then show ?thesis
    using lower_char_not_capital [of d] by simp
qed

text \<open>
  Of the members of \<^verbatim>\<open>Object.prototype\<close> only \<^verbatim>\<open>constructor\<close> and \<^verbatim>\<open>__proto__\<close> are written
  without a capital letter, so only these two can be met by a lower-cased extension.
\<close>

lemma inherited_lower_case_keys:
  assumes "toLowerCase x \<in> set Object_prototype_keys"
  shows "toLowerCase x = ''constructor'' \<or> toLowerCase x = ''__proto__''"
proof (rule ccontr)
  assume no: "\<not> ?thesis"
  with assms have "\<exists>c \<in> set (toLowerCase x). 65 \<le> (of_char c :: nat) \<and> (of_char c :: nat) \<le> 90"
    unfolding Object_prototype_keys_def by auto
  then show False
    using toLowerCase_not_capital by blast
qed

lemma loaderFromPathname_table:
  "loaderFromPathname pathname =
     (let seg = pop (split CHR ''/'' pathname);
          dot = lastIndexOf CHR ''.'' seg;
          ext = toLowerCase (slice (dot + 1) seg)
      in if dot \<le> 0 then None
         else if ext = ''constructor'' \<or> ext = ''__proto__'' then Some (JBuiltin ext)
         else map_option JString (map_of EXT_TO_LOADER ext))"
proof -
  define seg where "seg = pop (split CHR ''/'' pathname)"
  define ext where "ext = toLowerCase (slice (lastIndexOf CHR ''.'' seg + 1) seg)"
  have own: "map_of EXT_TO_LOADER ''constructor'' = None" "map_of EXT_TO_LOADER ''__proto__'' = None"
    by (simp_all add: EXT_TO_LOADER_def)
  have keys: "''constructor'' \<in> set Object_prototype_keys" "''__proto__'' \<in> set Object_prototype_keys"
    by (simp_all add: Object_prototype_keys_def)
  have "get_property EXT_TO_LOADER ext =
          (if ext = ''constructor'' \<or> ext = ''__proto__'' then Some (JBuiltin ext)
           else map_option JString (map_of EXT_TO_LOADER ext))"
    using inherited_lower_case_keys [of "slice (lastIndexOf CHR ''.'' seg + 1) seg"] own keys
    unfolding ext_def [symmetric]
    by (auto simp: get_property_def split: option.splits)
  then show ?thesis
    by (simp add: loaderFromPathname_def Let_def seg_def ext_def)
qed

text \<open>
  Claim C7 fails on the code. The table is an object literal, and reading it at the
  extension \<^verbatim>\<open>constructor\<close> (or \<^verbatim>\<open>__proto__\<close>) yields the member inherited from
  \<^verbatim>\<open>Object.prototype\<close>, not \<^verbatim>\<open>undefined\<close>: for such a path the inference has a result, and
  it is no loader.
\<close>

theorem loaderFromPathname_inherited_member:
  "loaderFromPathname ''/mod.constructor'' = Some (JBuiltin ''constructor'')
   \<and> loaderFromPathname ''/mod.__proto__'' = Some (JBuiltin ''__proto__'')
   \<and> map_of EXT_TO_LOADER ''constructor'' = None
   \<and> map_of EXT_TO_LOADER ''__proto__'' = None"
  by (simp add: loader_defs)

subsection \<open>The chain\<close>

lemma select_loader_chain:
  "select_loader P resolver args res =
     (case (case resolver of None \<Rightarrow> Fulfils None | Some f \<Rightarrow> f args res) of
        Rejects e \<Rightarrow> Rejects e
      | Never \<Rightarrow> Never
      | Fulfils override \<Rightarrow>
          (case override of
             Some l \<Rightarrow> Fulfils (JString l)
           | None \<Rightarrow>
               (case URL_pathname P (path args) of
                  Inl e \<Rightarrow> Rejects e
                | Inr pathname \<Rightarrow>
                    Fulfils (case loaderFromPathname pathname of
                               Some v \<Rightarrow> v
                             | None \<Rightarrow>
                                 JString (case loaderFromContentType (content_type res) of
                                            Some l \<Rightarrow> l
                                          | None \<Rightarrow> ''js'')))))"
  by (simp add: select_loader_def split: option.splits outcome.splits sum.splits)

lemma select_loader_examples:
  "select_loader (node f) None (load_args ''https://example.com/mod.ts'')
       (makeResponse body 200 ''application/javascript'') = Fulfils (JString ''ts'')"
  "select_loader (node f) None (load_args ''https://example.com/mod'')
       (makeResponse body 200 ''application/octet-stream'') = Fulfils (JString ''js'')"
  "select_loader (node f) None (load_args ''https://example.com/mod'')
       (makeResponse body 200 ''application/typescript; charset=utf-8'') = Fulfils (JString ''ts'')"
  "select_loader (node f) None (load_args ''https://example.com/mod.constructor'')
       (makeResponse body 200 ''application/javascript'') = Fulfils (JBuiltin ''constructor'')"
  by (simp_all add: loader_defs url_defs load_args_def makeResponse_def)

lemma onLoad_fulfils:
  assumes "select_loader (node (\<lambda>u. Responds (makeResponse body 200 ct))) None (load_args p)
             (makeResponse body 200 ct) = Fulfils v"
  shows "fst (onLoad (node (\<lambda>u. Responds (makeResponse body 200 ct))) None s (load_args p))
           = Fulfils \<lparr>contents = body, loader = v\<rparr>"
  using assms
  by (simp add: load_defs makeResponse_def ok_def config_loaderResolver_def)

text \<open>
  Claim C3 fails on the code, by the defect of claim C7. The chain is the one the claim
  describes (\<open>select_loader_chain\<close>), but what the extension inference hands it need not be
  a loader: a successful load of \<^verbatim>\<open>https://example.com/mod.constructor\<close> returns the
  function \<^verbatim>\<open>Object\<close> where a loader is due, and the content type is not consulted.
\<close>

theorem load_yields_inherited_member_as_loader:
  "fst (onLoad (node (\<lambda>u. Responds (makeResponse body 200 ''application/javascript''))) None s
          (load_args ''https://example.com/mod.constructor''))
     = Fulfils \<lparr>contents = body, loader = JBuiltin ''constructor''\<rparr>"
  by (rule onLoad_fulfils) (rule select_loader_examples)

text \<open>
  Claim C8. The loader of a content type is that of its media type in the table of the
  specification: the text before the first \<^verbatim>\<open>;\<close>, trimmed and in lower case. A header
  that is absent, or whose media type is not in the table, has none. A path without
  extension served as \<^verbatim>\<open>application/typescript; charset=utf-8\<close> is loaded as \<^verbatim>\<open>ts\<close>.
\<close>

theorem content_type_inference_table:
  "loaderFromContentType header = content_type_inference header
   \<and> fst (onLoad (node (\<lambda>u. Responds (makeResponse body 200
                                         ''application/typescript; charset=utf-8'')))
            None s (load_args ''https://example.com/mod''))
       = Fulfils \<lparr>contents = body, loader = JString ''ts''\<rparr>"
proof -
  have "loaderFromContentType header = content_type_inference header"
    by (simp add: loaderFromContentType_def content_type_inference_def media_type_def
          CONTENT_TYPE_TO_LOADER_def fst_split Let_def split: option.splits)
  moreover have "fst (onLoad (node (\<lambda>u. Responds (makeResponse body 200
                                         ''application/typescript; charset=utf-8'')))
            None s (load_args ''https://example.com/mod''))
       = Fulfils \<lparr>contents = body, loader = JString ''ts''\<rparr>"
    by (rule onLoad_fulfils) (rule select_loader_examples)
  ultimately show ?thesis by blast
qed

end
